theory Spec2Isabelle
  imports Main
begin

section \<open>JavaScript string primitives\<close>

text \<open>
  The source works on JavaScript strings. They are modelled as \<open>string\<close> (lists of 8-bit
  characters): every function below agrees with its JavaScript namesake on ASCII text, which
  is what server addresses, map names and tags are made of.
\<close>

definition lower_char :: "char \<Rightarrow> char" where
  "lower_char c =
     (case map_of (zip ''ABCDEFGHIJKLMNOPQRSTUVWXYZ'' ''abcdefghijklmnopqrstuvwxyz'') c of
        None \<Rightarrow> c
      | Some l \<Rightarrow> l)"

definition toLowerCase :: "string \<Rightarrow> string" where
  "toLowerCase s = map lower_char s"

text \<open>\<open>s.startsWith(p)\<close>\<close>

definition startsWith :: "string \<Rightarrow> string \<Rightarrow> bool" where
  "startsWith s p = (take (length p) s = p)"

text \<open>\<open>s.includes(p)\<close> (\<open>includes\<close> is an Isabelle keyword): \<open>p\<close> occurs at some position of \<open>s\<close>.\<close>

fun includes_str :: "string \<Rightarrow> string \<Rightarrow> bool" where
  "includes_str [] p = (p = [])"
| "includes_str (c # cs) p = (startsWith (c # cs) p \<or> includes_str cs p)"

text \<open>\<open>s.split(sep)\<close> for a one-character separator: the result is never empty.\<close>

fun split :: "char \<Rightarrow> string \<Rightarrow> string list" where
  "split sep [] = [[]]"
| "split sep (c # cs) =
     (if c = sep then [] # split sep cs
      else (case split sep cs of
              [] \<Rightarrow> [[c]]
            | w # ws \<Rightarrow> (c # w) # ws))"

text \<open>\<open>xs.some(p)\<close>\<close>

primrec array_some :: "('a \<Rightarrow> bool) \<Rightarrow> 'a list \<Rightarrow> bool" where
  "array_some p [] = False"
| "array_some p (x # xs) = (p x \<or> array_some p xs)"

text \<open>
  \<open>parseInt(s, radix)\<close> after ECMAScript: leading white space is skipped, a sign is read,
  with no radix (or radix 16) a prefix \<open>0x\<close> is skipped and selects radix 16, then the longest
  run of digits of the radix is read. No digit at all gives \<open>NaN\<close>, which is \<open>None\<close> here.
  The program calls it with radix 10 and with no radix.
  The result is an exact integer (JavaScript rounds beyond \<open>2^53\<close>). The value \<open>undefined\<close>
  is passed as \<open>None\<close>: its string form has no digit.
\<close>

definition is_white :: "char \<Rightarrow> bool" where
  "is_white c = (c \<in> set [CHR '' '', CHR 0x09, CHR 0x0A, CHR 0x0B, CHR 0x0C, CHR 0x0D])"

definition digit_val :: "char \<Rightarrow> int option" where
  "digit_val c =
     map_of (zip ''0123456789abcdefghijklmnopqrstuvwxyz'' [0..35]) (lower_char c)"

definition is_digit :: "int \<Rightarrow> char \<Rightarrow> bool" where
  "is_digit radix c = (case digit_val c of None \<Rightarrow> False | Some d \<Rightarrow> d < radix)"

definition digits_value :: "int \<Rightarrow> string \<Rightarrow> int" where
  "digits_value radix ds = foldl (\<lambda>acc c. acc * radix + the (digit_val c)) 0 ds"

definition parseInt :: "string option \<Rightarrow> int option \<Rightarrow> int option" where
  "parseInt input radix =
     (case input of
        None \<Rightarrow> None
      | Some s \<Rightarrow>
          (let s1 = dropWhile is_white s;
               negative = (s1 \<noteq> [] \<and> hd s1 = CHR ''-'');
               s2 = (if s1 \<noteq> [] \<and> (hd s1 = CHR ''-'' \<or> hd s1 = CHR ''+'') then tl s1 else s1);
               hex = ((radix = None \<or> radix = Some 16) \<and>
                      (startsWith s2 ''0x'' \<or> startsWith s2 ''0X''));
               r = (if hex then 16 else case radix of None \<Rightarrow> 10 | Some n \<Rightarrow> n);
               s3 = (if hex then drop 2 s2 else s2);
               ds = takeWhile (is_digit r) s3
           in if ds = [] then None
              else Some ((if negative then - 1 else 1) * digits_value r ds)))"

section \<open>Gamemode detector (\<open>src/utils/gamemode-detector.js\<close>)\<close>

text \<open>
  The part of a Gamedig answer that the program reads. \<open>raw.tags\<close> is an array, a string or
  anything else (\<open>TagsOther\<close>, which includes_str \<open>undefined\<close>); \<open>raw\<close> itself may be missing.
\<close>

datatype raw_tags = TagsArray "string list" | TagsString string | TagsOther

record gamedig_raw =
  raw_tags :: raw_tags
  raw_steamid :: "string option"
  raw_secure :: bool
  raw_version :: "string option"

record server_data =
  sd_name :: string
  sd_map :: string
  sd_connect :: "string option"
  sd_queryPort :: "int option"
  sd_password :: bool
  sd_players :: "string list"
  sd_maxplayers :: int
  sd_bots :: "string list option"
  sd_ping :: int
  sd_raw :: "gamedig_raw option"

definition tags_of :: "server_data \<Rightarrow> string list" where
  "tags_of serverData =
     (case sd_raw serverData of
        None \<Rightarrow> []
      | Some raw \<Rightarrow>
          (case raw_tags raw of
             TagsArray ts \<Rightarrow> ts
           | TagsString s \<Rightarrow> split CHR '','' s
           | TagsOther \<Rightarrow> []))"

definition detectGamemode :: "server_data \<Rightarrow> string" where
  "detectGamemode serverData =
     (let name_lc = toLowerCase (sd_name serverData);
          map_lc = toLowerCase (sd_map serverData);
          tags = tags_of serverData
      in
      if startsWith map_lc ''surf_'' \<or> includes_str name_lc ''surf'' \<or>
         array_some (\<lambda>tag. includes_str tag ''surf'') tags
      then ''surf''
      else if startsWith map_lc ''bhop_'' \<or> includes_str name_lc ''bhop'' \<or>
         includes_str name_lc ''bunnyhop'' \<or>
         array_some (\<lambda>tag. includes_str tag ''bhop'' \<or> includes_str tag ''bunnyhop'') tags
      then ''bhop''
      else if startsWith map_lc ''ze_'' \<or> includes_str name_lc ''zombie'' \<or>
         includes_str name_lc ''ze '' \<or>
         array_some (\<lambda>tag. includes_str tag ''ze'' \<or> includes_str tag ''zombie'') tags
      then ''ze''
      else if startsWith map_lc ''kz_'' \<or> includes_str name_lc '' kz'' \<or>
         includes_str name_lc ''climb'' \<or>
         array_some (\<lambda>tag. includes_str tag ''kz'' \<or> includes_str tag ''climb'') tags
      then ''kz''
      else if includes_str name_lc ''deathmatch'' \<or> includes_str name_lc '' dm '' \<or>
         array_some (\<lambda>tag. includes_str tag ''dm'' \<or> includes_str tag ''deathmatch'') tags
      then ''dm''
      else if includes_str name_lc ''retake'' \<or>
         array_some (\<lambda>tag. includes_str tag ''retake'') tags
      then ''retake''
      else if includes_str name_lc ''awp'' \<or> startsWith map_lc ''awp_'' \<or>
         array_some (\<lambda>tag. includes_str tag ''awp'') tags
      then ''awp''
      else if startsWith map_lc ''aim_'' \<or> includes_str name_lc ''aim'' \<or>
         includes_str name_lc ''1v1'' \<or>
         array_some (\<lambda>tag. includes_str tag ''aim'' \<or> includes_str tag ''1v1'') tags
      then ''aim''
      else if startsWith map_lc ''jb_'' \<or> includes_str name_lc ''jail'' \<or>
         includes_str name_lc ''jailbreak'' \<or>
         array_some (\<lambda>tag. includes_str tag ''jail'' \<or> includes_str tag ''jb'') tags
      then ''jb''
      else if includes_str name_lc ''gungame'' \<or> includes_str name_lc ''arms race'' \<or>
         array_some (\<lambda>tag. includes_str tag ''gungame'' \<or> includes_str tag ''gg'') tags
      then ''gungame''
      else if (startsWith map_lc ''surf_'' \<or> includes_str name_lc ''surf'') \<and>
         (includes_str name_lc ''combat'' \<or> includes_str name_lc ''dm'')
      then ''csurf''
      else if includes_str name_lc ''minigame'' \<or> startsWith map_lc ''mg_'' \<or>
         array_some (\<lambda>tag. includes_str tag ''minigame'' \<or> includes_str tag ''mg'') tags
      then ''mg''
      else if includes_str name_lc ''hide'' \<or> includes_str name_lc ''prop hunt'' \<or>
         array_some (\<lambda>tag. includes_str tag ''hide'' \<or> includes_str tag ''hns'') tags
      then ''hns''
      else ''public'')"

section \<open>The \<open>servers\<close> table\<close>

text \<open>
  Time stamps are ISO strings in the source, compared by the database as points in time; here
  they are milliseconds since the epoch.
\<close>

type_synonym timestamp = int

text \<open>
  \<open>server_record\<close> is the object \<open>serverRecord\<close> that the query worker sends to the table:
  its key \<open>seen_count\<close> is \<open>undefined\<close> and so is not part of what is sent. \<open>port\<close> is
  \<open>None\<close> for \<open>NaN\<close>, which is sent as \<open>null\<close>; a \<open>null\<close> \<open>missed_count\<close> is \<open>None\<close>. The
  column \<open>map\<close> is called \<open>map_name\<close>. A row of the table has the columns of the record,
  \<open>seen_count\<close>, and \<open>first_seen\<close>, which the workers never write. The two counters are
  natural numbers: the workers only set them to 0 and add 1 to them.
\<close>

record server_record =
  addr :: string
  ip :: string
  port :: "int option"
  query_port :: int
  steam_id :: "string option"
  name :: string
  map_name :: string
  gamemode :: string
  password :: bool
  vac :: bool
  version :: "string option"
  players :: nat
  max_players :: int
  bots :: nat
  ping :: int
  status :: string
  offline_since :: "timestamp option"
  missed_count :: "nat option"
  updated_at :: timestamp

record server_row = server_record +
  seen_count :: nat
  first_seen :: timestamp

type_synonym servers_table = "server_row list"

text \<open>
  \<open>config.worker\<close> of the configuration module, as far as the workers below read it. The
  table's declaration is not part of the sources, so the default of its column \<open>seen_count\<close>
  is a parameter as well.
\<close>

record worker_config =
  serverOfflineThreshold :: int
  serverDeleteThresholdDays :: int
  seen_count_default :: nat

text \<open>
  The client of the table returns an error instead of throwing. Whether each call of a job
  succeeds is an input of the model; a call that fails leaves the table as it was.
\<close>

record store_calls =
  upsert_ok :: bool
  rpc_ok :: bool
  select_ok :: bool
  update_ok :: bool

definition all_ok :: store_calls where
  "all_ok = \<lparr>upsert_ok = True, rpc_ok = True, select_ok = True, update_ok = True\<rparr>"

text \<open>The row that a record gives, with the two columns that the record does not carry.\<close>

definition row_of :: "server_record \<Rightarrow> nat \<Rightarrow> timestamp \<Rightarrow> server_row" where
  "row_of r seen first =
     \<lparr>addr = addr r, ip = ip r, port = port r, query_port = query_port r,
      steam_id = steam_id r, name = name r, map_name = map_name r, gamemode = gamemode r,
      password = password r, vac = vac r, version = version r, players = players r,
      max_players = max_players r, bots = bots r, ping = ping r, status = status r,
      offline_since = offline_since r, missed_count = missed_count r,
      updated_at = updated_at r, seen_count = seen, first_seen = first\<rparr>"

text \<open>
  Modelled from the spec: the default of the column \<open>first_seen\<close>, which an inserted row
  gets from the declaration of the table (not part of the sources); section 4.4 of the spec
  has a record created with \<open>firstSeen = now\<close>.
\<close>

definition first_seen_default :: "timestamp \<Rightarrow> timestamp" where
  "first_seen_default now = now"

text \<open>
  \<open>upsert(record, {onConflict: 'addr'})\<close>: a row with this \<open>addr\<close> gets every column of the
  record and keeps the others; with no such row one is inserted, its other columns at their
  defaults.
\<close>

definition upsert :: "nat \<Rightarrow> timestamp \<Rightarrow> server_record \<Rightarrow> servers_table \<Rightarrow> servers_table" where
  "upsert seen_default now r servers =
     (if array_some (\<lambda>row. addr row = addr r) servers
      then map (\<lambda>row. if addr row = addr r
                        then row_of r (seen_count row) (first_seen row) else row) servers
      else servers @ [row_of r seen_default (first_seen_default now)])"

text \<open>
  The stored procedure:
  \<open>UPDATE servers SET seen_count = seen_count + 1 WHERE addr = addr_param\<close>.
\<close>

definition increment_server_seen_count :: "string \<Rightarrow> servers_table \<Rightarrow> servers_table" where
  "increment_server_seen_count addr_param servers =
     map (\<lambda>row. if addr row = addr_param
                 then row\<lparr>seen_count := seen_count row + 1\<rparr> else row) servers"

text \<open>\<open>select(...).eq('addr', a).single()\<close>: the row, when exactly one row has this \<open>addr\<close>.\<close>

definition select_single :: "string \<Rightarrow> servers_table \<Rightarrow> server_row option" where
  "select_single a servers =
     (case filter (\<lambda>row. addr row = a) servers of
        [row] \<Rightarrow> Some row
      | _ \<Rightarrow> None)"

text \<open>
  The object \<open>updateData\<close>; the keys \<open>status\<close> and \<open>offline_since\<close> are present only when the
  server is marked offline.
\<close>

record update_data =
  ud_missed_count :: nat
  ud_updated_at :: timestamp
  ud_seen_count :: nat
  ud_status :: "string option"
  ud_offline_since :: "timestamp option"

text \<open>\<open>update(updateData).eq('addr', a)\<close>\<close>

definition update_eq_addr :: "update_data \<Rightarrow> string \<Rightarrow> servers_table \<Rightarrow> servers_table" where
  "update_eq_addr u a servers =
     map (\<lambda>row. if addr row = a
                 then row\<lparr>missed_count := Some (ud_missed_count u),
                          updated_at := ud_updated_at u,
                          seen_count := ud_seen_count u,
                          status := (case ud_status u of None \<Rightarrow> status row | Some s \<Rightarrow> s),
                          offline_since := (case ud_offline_since u of
                                              None \<Rightarrow> offline_since row
                                            | Some t \<Rightarrow> Some t)\<rparr>
                 else row) servers"

section \<open>Server query worker (\<open>serverWorker\<close>)\<close>

text \<open>
  The address of a job is split at the colons; the job ends at once (\<open>None\<close>) when the host
  is empty or the port is \<open>NaN\<close> or 0.
\<close>

definition parse_addr :: "string \<Rightarrow> (string \<times> int) option" where
  "parse_addr a =
     (case split CHR '':'' a of
        [] \<Rightarrow> None
      | host # rest \<Rightarrow>
          (case parseInt (case rest of [] \<Rightarrow> None | portStr # _ \<Rightarrow> Some portStr) (Some 10) of
             None \<Rightarrow> None
           | Some port_num \<Rightarrow>
               if host = [] \<or> port_num = 0 then None else Some (host, port_num)))"

text \<open>The record built from an answer of the server, at time \<open>now\<close>.\<close>

definition serverRecord ::
  "timestamp \<Rightarrow> string \<Rightarrow> string \<Rightarrow> int \<Rightarrow> server_data \<Rightarrow> server_record" where
  "serverRecord now a host port_num serverData =
     \<lparr>addr = a,
      ip = host,
      port = (case sd_connect serverData of
                None \<Rightarrow> Some port_num
              | Some c \<Rightarrow>
                  if c = [] then Some port_num
                  else parseInt (case tl (split CHR '':'' c) of
                                   [] \<Rightarrow> None
                                 | p # _ \<Rightarrow> Some p) None),
      query_port = (case sd_queryPort serverData of
                      None \<Rightarrow> port_num
                    | Some q \<Rightarrow> if q = 0 then port_num else q),
      steam_id = (case sd_raw serverData of
                    None \<Rightarrow> None
                  | Some raw \<Rightarrow>
                      (case raw_steamid raw of
                         None \<Rightarrow> None
                       | Some i \<Rightarrow> if i = [] then None else Some i)),
      name = sd_name serverData,
      map_name = sd_map serverData,
      gamemode = detectGamemode serverData,
      password = sd_password serverData,
      vac = (case sd_raw serverData of None \<Rightarrow> False | Some raw \<Rightarrow> raw_secure raw),
      version = (case sd_raw serverData of
                   None \<Rightarrow> None
                 | Some raw \<Rightarrow>
                     (case raw_version raw of
                        None \<Rightarrow> None
                      | Some v \<Rightarrow> if v = [] then None else Some v)),
      players = length (sd_players serverData),
      max_players = sd_maxplayers serverData,
      bots = (case sd_bots serverData of None \<Rightarrow> 0 | Some bs \<Rightarrow> length bs),
      ping = sd_ping serverData,
      status = ''online'',
      offline_since = None,
      missed_count = Some 0,
      updated_at = now\<rparr>"

text \<open>
  The \<open>catch\<close> block of the worker: the row of the address, if there is one, counts one more
  miss, and is marked offline when the count reaches the threshold and the row is not offline
  yet. A failure of the update is logged and nothing else.
\<close>

definition handle_failure ::
  "worker_config \<Rightarrow> store_calls \<Rightarrow> timestamp \<Rightarrow> string \<Rightarrow> servers_table \<Rightarrow> servers_table" where
  "handle_failure config calls now a servers =
     (case (if select_ok calls then select_single a servers else None) of
        None \<Rightarrow> servers
      | Some existingServer \<Rightarrow>
          (let newMissedCount =
                 (case missed_count existingServer of None \<Rightarrow> 0 | Some m \<Rightarrow> m) + 1;
               mark = (serverOfflineThreshold config \<le> int newMissedCount \<and>
                       status existingServer \<noteq> ''offline'');
               updateData =
                 \<lparr>ud_missed_count = newMissedCount,
                  ud_updated_at = now,
                  ud_seen_count = 0,
                  ud_status = (if mark then Some ''offline'' else None),
                  ud_offline_since = (if mark then Some now else None)\<rparr>
           in if update_ok calls then update_eq_addr updateData a servers else servers))"

text \<open>
  The outcome of \<open>Gamedig.query\<close>: an answer or a failure. One job of the worker at time \<open>now\<close>
  returns the record or \<open>null\<close>, and the table. On an answer the record is upserted, then the
  stored procedure is called, and only then the error of the upsert is looked at: it is
  thrown into the \<open>catch\<close> block, as a failed query is. Calls of the logger are left out.
\<close>

datatype probe = Hit server_data | Miss

definition serverWorker ::
  "worker_config \<Rightarrow> store_calls \<Rightarrow> timestamp \<Rightarrow> string \<Rightarrow> probe \<Rightarrow> servers_table
     \<Rightarrow> server_record option \<times> servers_table" where
  "serverWorker config calls now a outcome servers =
     (case parse_addr a of
        None \<Rightarrow> (None, servers)
      | Some (host, port_num) \<Rightarrow>
          (case outcome of
             Hit serverData \<Rightarrow>
               (let r = serverRecord now a host port_num serverData;
                    servers1 = (if upsert_ok calls
                                then upsert (seen_count_default config) now r servers
                                else servers);
                    servers2 = (if rpc_ok calls
                                then increment_server_seen_count a servers1
                                else servers1)
                in if upsert_ok calls then (Some r, servers2)
                   else (None, handle_failure config calls now a servers2))
           | Miss \<Rightarrow> (None, handle_failure config calls now a servers)))"

section \<open>Cleanup worker (\<open>cleanupWorker\<close>)\<close>

text \<open>
  The local time of the process, as ECMAScript has it: the offset in ms of local time from
  UTC in effect at a UTC instant (\<open>LocalTZA(t, true)\<close>) and the offset in effect at a local
  time value (\<open>LocalTZA(t, false)\<close>). \<open>LocalTime\<close> and \<open>UTC\<close> convert with them.
\<close>

record local_zone =
  offset_at_utc :: "timestamp \<Rightarrow> int"
  offset_at_local :: "int \<Rightarrow> int"

definition LocalTime :: "local_zone \<Rightarrow> timestamp \<Rightarrow> int" where
  "LocalTime zone t = t + offset_at_utc zone t"

definition UTC :: "local_zone \<Rightarrow> int \<Rightarrow> timestamp" where
  "UTC zone t = t - offset_at_local zone t"

text \<open>
  The cut-off: \<open>new Date()\<close> followed by \<open>setDate(getDate() - serverDeleteThresholdDays)\<close>.
  \<open>setDate\<close> works on the local time: it keeps the year, the month and the time within the
  day, and sets the day of the month, days outside the month being carried over. So the local
  time goes back by that many days of 86400000 ms, to the same time of day, and is converted
  back to UTC with the offset in effect there. One \<open>delete\<close> removes the rows with
  \<open>status = 'offline'\<close> and \<open>offline_since < cutoff\<close>; a \<open>null\<close> \<open>offline_since\<close> is not less
  than anything. The job returns the count, or throws the error of the store.
\<close>

datatype store_error = StoreError

definition cutoffDate :: "worker_config \<Rightarrow> local_zone \<Rightarrow> timestamp \<Rightarrow> timestamp" where
  "cutoffDate config zone now =
     UTC zone (LocalTime zone now - serverDeleteThresholdDays config * 86400000)"

definition expired :: "timestamp \<Rightarrow> server_row \<Rightarrow> bool" where
  "expired cutoff row =
     (status row = ''offline'' \<and>
      (case offline_since row of None \<Rightarrow> False | Some t \<Rightarrow> t < cutoff))"

definition cleanupWorker ::
  "worker_config \<Rightarrow> local_zone \<Rightarrow> bool \<Rightarrow> timestamp \<Rightarrow> servers_table
     \<Rightarrow> (store_error + nat) \<times> servers_table" where
  "cleanupWorker config zone delete_ok now servers =
     (if delete_ok
      then (Inr (length (filter (expired (cutoffDate config zone now)) servers)),
            filter (\<lambda>row. \<not> expired (cutoffDate config zone now) row) servers)
      else (Inl StoreError, servers))"

section \<open>Runs of the workers\<close>

text \<open>
  Consecutive failed queries of one address at the given times, every call of the store
  succeeding.
\<close>

fun misses :: "worker_config \<Rightarrow> string \<Rightarrow> timestamp list \<Rightarrow> servers_table \<Rightarrow> servers_table" where
  "misses config a [] servers = servers"
| "misses config a (t # ts) servers =
     misses config a ts (snd (serverWorker config all_ok t a Miss servers))"

text \<open>
  A history of the table: jobs of the two workers, one after the other, every call of the
  store succeeding. The jobs of one address are taken one at a time.
\<close>

datatype job = QueryJob timestamp string probe | CleanupJob timestamp

fun run_job :: "worker_config \<Rightarrow> local_zone \<Rightarrow> job \<Rightarrow> servers_table \<Rightarrow> servers_table" where
  "run_job config zone (QueryJob t a outcome) servers =
     snd (serverWorker config all_ok t a outcome servers)"
| "run_job config zone (CleanupJob t) servers = snd (cleanupWorker config zone True t servers)"

fun run_jobs ::
  "worker_config \<Rightarrow> local_zone \<Rightarrow> job list \<Rightarrow> servers_table \<Rightarrow> servers_table" where
  "run_jobs config zone [] servers = servers"
| "run_jobs config zone (j # js) servers = run_jobs config zone js (run_job config zone j servers)"

section \<open>The rules of the detector as a list\<close>

text \<open>
  The reading of the spec (section 4.3): an ordered list of rules, the first rule that matches
  gives the gamemode, and \<open>public\<close> is the default. A rule matches on a prefix of the map
  name, a part of the server name, or a part of a tag; the combat-surf rule asks for a surf
  map or name and a combat or dm name. The patterns of each rule are those of the source,
  the order is that of the spec. The name and the map are given in lower case.
\<close>

type_synonym rule = "string \<times> (string \<Rightarrow> string \<Rightarrow> string list \<Rightarrow> bool)"

definition pattern_rule ::
  "string list \<Rightarrow> string list \<Rightarrow> string list \<Rightarrow> string \<Rightarrow> string \<Rightarrow> string list \<Rightarrow> bool" where
  "pattern_rule map_prefixes name_parts tag_parts name_lc map_lc tags =
     (array_some (startsWith map_lc) map_prefixes \<or>
      array_some (includes_str name_lc) name_parts \<or>
      array_some (\<lambda>tag. array_some (includes_str tag) tag_parts) tags)"

definition combat_surf_rule :: "string \<Rightarrow> string \<Rightarrow> string list \<Rightarrow> bool" where
  "combat_surf_rule name_lc map_lc tags =
     ((startsWith map_lc ''surf_'' \<or> includes_str name_lc ''surf'') \<and>
      (includes_str name_lc ''combat'' \<or> includes_str name_lc ''dm''))"

definition priority_rules :: "rule list" where
  "priority_rules =
     [(''surf'', pattern_rule [''surf_''] [''surf''] [''surf'']),
      (''bhop'', pattern_rule [''bhop_''] [''bhop'', ''bunnyhop''] [''bhop'', ''bunnyhop'']),
      (''ze'', pattern_rule [''ze_''] [''zombie'', ''ze ''] [''ze'', ''zombie'']),
      (''kz'', pattern_rule [''kz_''] ['' kz'', ''climb''] [''kz'', ''climb'']),
      (''dm'', pattern_rule [] [''deathmatch'', '' dm ''] [''dm'', ''deathmatch'']),
      (''retake'', pattern_rule [] [''retake''] [''retake'']),
      (''awp'', pattern_rule [''awp_''] [''awp''] [''awp'']),
      (''aim'', pattern_rule [''aim_''] [''aim'', ''1v1''] [''aim'', ''1v1'']),
      (''jb'', pattern_rule [''jb_''] [''jail'', ''jailbreak''] [''jail'', ''jb'']),
      (''gungame'', pattern_rule [] [''gungame'', ''arms race''] [''gungame'', ''gg'']),
      (''csurf'', combat_surf_rule),
      (''mg'', pattern_rule [''mg_''] [''minigame''] [''minigame'', ''mg'']),
      (''hns'', pattern_rule [] [''hide'', ''prop hunt''] [''hide'', ''hns''])]"

fun first_match :: "rule list \<Rightarrow> string \<Rightarrow> string \<Rightarrow> string list \<Rightarrow> string" where
  "first_match [] name_lc map_lc tags = ''public''"
| "first_match ((mode, matches) # rules) name_lc map_lc tags =
     (if matches name_lc map_lc tags then mode else first_match rules name_lc map_lc tags)"

section \<open>Sample inputs\<close>

text \<open>
  An answer of a server with the given name, map and tags; an address, two zones, a
  configuration with the default values, and a row of that address with the given status,
  \<open>offline_since\<close>, \<open>seen_count\<close> and \<open>missed_count\<close>. They are used for concrete runs.
\<close>

definition tagged_server :: "string \<Rightarrow> string \<Rightarrow> raw_tags \<Rightarrow> server_data" where
  "tagged_server n m ts =
     \<lparr>sd_name = n, sd_map = m, sd_connect = None, sd_queryPort = None, sd_password = False,
      sd_players = [], sd_maxplayers = 10, sd_bots = None, sd_ping = 20,
      sd_raw = Some \<lparr>raw_tags = ts, raw_steamid = None, raw_secure = True,
                     raw_version = None\<rparr>\<rparr>"

definition sample_addr :: string where
  "sample_addr = ''203.0.113.7:27015''"

definition utc_zone :: local_zone where
  "utc_zone = \<lparr>offset_at_utc = (\<lambda>t. 0), offset_at_local = (\<lambda>t. 0)\<rparr>"

text \<open>
  A zone whose clocks go forward by one hour at the instant 1000000000: local times from
  1003600000 on are one hour ahead of UTC.
\<close>

definition summer_zone :: local_zone where
  "summer_zone =
     \<lparr>offset_at_utc = (\<lambda>t. if t < 1000000000 then 0 else 3600000),
      offset_at_local = (\<lambda>t. if t < 1003600000 then 0 else 3600000)\<rparr>"

definition sample_config :: worker_config where
  "sample_config =
     \<lparr>serverOfflineThreshold = 3, serverDeleteThresholdDays = 7, seen_count_default = 0\<rparr>"

definition sample_data :: server_data where
  "sample_data = tagged_server ''casual pub'' ''de_dust2'' TagsOther"

definition sample_row :: "string \<Rightarrow> timestamp option \<Rightarrow> nat \<Rightarrow> nat \<Rightarrow> server_row" where
  "sample_row st since seen missed =
     (row_of (serverRecord 0 sample_addr ''203.0.113.7'' 27015 sample_data) seen 0)
       \<lparr>status := st, offline_since := since, missed_count := Some missed\<rparr>"

section \<open>Properties of the gamemode detector\<close>

lemma array_some_iff: "array_some p xs = (\<exists>x\<in>set xs. p x)"
  by (induction xs) auto

lemmas eval_strings = toLowerCase_def lower_char_def startsWith_def

text \<open>
  C10: \<open>detectGamemode\<close> never returns \<open>csurf\<close>. The combat-surf rule asks for a map that
  starts with \<open>surf_\<close> or a name that contains \<open>surf\<close>, and every such input has already been
  returned as \<open>surf\<close> by the first rule.
\<close>

theorem combat_surf_unreachable: "detectGamemode serverData \<noteq> ''csurf''"
proof (cases "startsWith (toLowerCase (sd_map serverData)) ''surf_'' \<or>
              includes_str (toLowerCase (sd_name serverData)) ''surf''")
  case True
  then show ?thesis unfolding detectGamemode_def Let_def by auto
next
  case False
  then show ?thesis unfolding detectGamemode_def Let_def by simp
qed

text \<open>
  C9, as claimed, fails in its second scenario: the name \<open>Best AWP 1v1 Server\<close> on the map
  \<open>aim_arena\<close> with the tag \<open>admin\<close> is classified \<open>dm\<close>, since \<open>admin\<close> contains \<open>dm\<close> and the
  deathmatch rule comes before the awp rule.
\<close>

theorem awp_scenario_with_admin_tag:
  "sd_name (tagged_server ''Best AWP 1v1 Server'' ''aim_arena'' (TagsArray [''admin''])) =
     ''Best AWP 1v1 Server'' \<and>
   sd_map (tagged_server ''Best AWP 1v1 Server'' ''aim_arena'' (TagsArray [''admin''])) =
     ''aim_arena'' \<and>
   detectGamemode (tagged_server ''Best AWP 1v1 Server'' ''aim_arena'' (TagsArray [''admin''])) =
     ''dm'' \<and>
   detectGamemode (tagged_server ''Best AWP 1v1 Server'' ''aim_arena'' (TagsArray [''admin''])) \<noteq>
     ''awp''"
  by (simp add: detectGamemode_def tagged_server_def tags_of_def eval_strings)

text \<open>
  C9, amended: the detector is the first match in the ordered list of rules surf, bhop, ze, kz,
  dm, retake, awp, aim, jb, gungame, csurf, mg, hns, with the default \<open>public\<close>, applied to the
  name and the map in lower case and the tags as they are. Hence a map \<open>surf_kitsune\<close> gives
  \<open>surf\<close>, whatever the name and the tags. The name \<open>Best AWP 1v1 Server\<close> on the map
  \<open>aim_arena\<close> gives \<open>awp\<close> although the aim rule matches it as well, provided no tag
  contains a pattern of the six rules before the awp rule. The name \<open>casual pub\<close> on
  \<open>de_dust2\<close> with no tag containing a pattern of any rule gives the default \<open>public\<close>.
\<close>

theorem classifier_first_match:
  "detectGamemode sd =
     first_match priority_rules (toLowerCase (sd_name sd)) (toLowerCase (sd_map sd)) (tags_of sd) \<and>
   map fst priority_rules =
     [''surf'', ''bhop'', ''ze'', ''kz'', ''dm'', ''retake'', ''awp'', ''aim'', ''jb'', ''gungame'',
      ''csurf'', ''mg'', ''hns''] \<and>
   (sd_map d1 = ''surf_kitsune'' \<longrightarrow> detectGamemode d1 = ''surf'') \<and>
   (sd_name d2 = ''Best AWP 1v1 Server'' \<and> sd_map d2 = ''aim_arena'' \<and>
    (\<forall>tag\<in>set (tags_of d2). \<forall>p\<in>set [''surf'', ''bhop'', ''bunnyhop'', ''ze'', ''zombie'',
        ''kz'', ''climb'', ''dm'', ''deathmatch'', ''retake'']. \<not> includes_str tag p)
    \<longrightarrow> detectGamemode d2 = ''awp'' \<and>
        pattern_rule [''aim_''] [''aim'', ''1v1''] [''aim'', ''1v1'']
          (toLowerCase (sd_name d2)) (toLowerCase (sd_map d2)) (tags_of d2)) \<and>
   (sd_name d3 = ''casual pub'' \<and> sd_map d3 = ''de_dust2'' \<and>
    (\<forall>tag\<in>set (tags_of d3). \<forall>p\<in>set [''surf'', ''bhop'', ''bunnyhop'', ''ze'', ''zombie'',
        ''kz'', ''climb'', ''dm'', ''deathmatch'', ''retake'', ''awp'', ''aim'', ''1v1'',
        ''jail'', ''jb'', ''gungame'', ''gg'', ''minigame'', ''mg'', ''hide'', ''hns''].
        \<not> includes_str tag p)
    \<longrightarrow> detectGamemode d3 = ''public'')"
proof (intro conjI impI)
  show "detectGamemode sd =
      first_match priority_rules (toLowerCase (sd_name sd)) (toLowerCase (sd_map sd)) (tags_of sd)"
    unfolding detectGamemode_def Let_def priority_rules_def pattern_rule_def combat_surf_rule_def
    by (simp add: disj_ac)
next
  show "map fst priority_rules =
      [''surf'', ''bhop'', ''ze'', ''kz'', ''dm'', ''retake'', ''awp'', ''aim'', ''jb'', ''gungame'',
       ''csurf'', ''mg'', ''hns'']"
    by (simp add: priority_rules_def)
next
  assume "sd_map d1 = ''surf_kitsune''"
  then show "detectGamemode d1 = ''surf''"
    by (simp add: detectGamemode_def eval_strings)
next
  assume "sd_name d2 = ''Best AWP 1v1 Server'' \<and> sd_map d2 = ''aim_arena'' \<and>
    (\<forall>tag\<in>set (tags_of d2). \<forall>p\<in>set [''surf'', ''bhop'', ''bunnyhop'', ''ze'', ''zombie'',
        ''kz'', ''climb'', ''dm'', ''deathmatch'', ''retake'']. \<not> includes_str tag p)"
  then show "detectGamemode d2 = ''awp''"
    by (simp add: detectGamemode_def eval_strings array_some_iff)
next
  assume "sd_name d2 = ''Best AWP 1v1 Server'' \<and> sd_map d2 = ''aim_arena'' \<and>
    (\<forall>tag\<in>set (tags_of d2). \<forall>p\<in>set [''surf'', ''bhop'', ''bunnyhop'', ''ze'', ''zombie'',
        ''kz'', ''climb'', ''dm'', ''deathmatch'', ''retake'']. \<not> includes_str tag p)"
  then show "pattern_rule [''aim_''] [''aim'', ''1v1''] [''aim'', ''1v1'']
      (toLowerCase (sd_name d2)) (toLowerCase (sd_map d2)) (tags_of d2)"
    by (simp add: pattern_rule_def eval_strings)
next
  assume "sd_name d3 = ''casual pub'' \<and> sd_map d3 = ''de_dust2'' \<and>
    (\<forall>tag\<in>set (tags_of d3). \<forall>p\<in>set [''surf'', ''bhop'', ''bunnyhop'', ''ze'', ''zombie'',
        ''kz'', ''climb'', ''dm'', ''deathmatch'', ''retake'', ''awp'', ''aim'', ''1v1'',
        ''jail'', ''jb'', ''gungame'', ''gg'', ''minigame'', ''mg'', ''hide'', ''hns''].
        \<not> includes_str tag p)"
  then show "detectGamemode d3 = ''public''"
    by (simp add: detectGamemode_def eval_strings array_some_iff)
qed

theorem classifier_first_match_witness:
  "detectGamemode (tagged_server ''Zombie Escape 24/7'' ''ze_mako'' (TagsString ''surf,ze'')) =
     first_match priority_rules ''zombie escape 24/7'' ''ze_mako'' [''surf'', ''ze''] \<and>
   detectGamemode (tagged_server ''anything'' ''surf_kitsune'' TagsOther) = ''surf'' \<and>
   detectGamemode (tagged_server ''Best AWP 1v1 Server'' ''aim_arena''
      (TagsString ''secure,competitive'')) = ''awp'' \<and>
   pattern_rule [''aim_''] [''aim'', ''1v1''] [''aim'', ''1v1'']
     ''best awp 1v1 server'' ''aim_arena'' [''secure'', ''competitive''] \<and>
   detectGamemode (tagged_server ''casual pub'' ''de_dust2''
      (TagsArray [''secure'', ''competitive''])) = ''public''"
  using classifier_first_match
     [of "tagged_server ''Zombie Escape 24/7'' ''ze_mako'' (TagsString ''surf,ze'')"
      "tagged_server ''anything'' ''surf_kitsune'' TagsOther"
      "tagged_server ''Best AWP 1v1 Server'' ''aim_arena'' (TagsString ''secure,competitive'')"
      "tagged_server ''casual pub'' ''de_dust2'' (TagsArray [''secure'', ''competitive''])"]
  by (simp add: tagged_server_def tags_of_def eval_strings)

text \<open>
  C8: the tags are not put in lower case before matching. A tag \<open>SURF\<close> in an array, or a
  tag \<open>Surf\<close> in a comma-separated string, does not match the surf rule and the server is
  classified \<open>public\<close>, where the tag \<open>surf\<close> gives \<open>surf\<close>; the map name, which is put in
  lower case, matches whatever its case.
\<close>

theorem tags_matched_case_sensitively:
  "detectGamemode (tagged_server ''Community Server'' ''de_dust2'' (TagsArray [''SURF''])) = ''public'' \<and>
   detectGamemode (tagged_server ''Community Server'' ''de_dust2'' (TagsString ''secure,Surf'')) = ''public'' \<and>
   detectGamemode (tagged_server ''Community Server'' ''de_dust2'' (TagsArray [''surf''])) = ''surf'' \<and>
   detectGamemode (tagged_server ''Community Server'' ''SURF_kitsune'' TagsOther) = ''surf''"
  by (simp add: detectGamemode_def tagged_server_def tags_of_def eval_strings)

section \<open>Reading one row after a call of the store\<close>

text \<open>
  The state of an address is what \<open>select_single\<close> reads for it. The lemmas below give it
  after each call of the store and after each branch of the query worker.
\<close>

lemma filter_update_addr:
  assumes "\<And>row. addr row = b \<Longrightarrow> addr (f row) = b"
  shows "filter (\<lambda>row. addr row = a) (map (\<lambda>row. if addr row = b then f row else row) xs) =
         map (\<lambda>row. if addr row = b then f row else row) (filter (\<lambda>row. addr row = a) xs)"
  by (induction xs) (auto simp: assms)

lemma select_single_Some: "select_single a xs = Some r \<longleftrightarrow> filter (\<lambda>row. addr row = a) xs = [r]"
  by (auto simp: select_single_def split: list.splits)

lemma filter_single_addr:
  assumes "filter (\<lambda>row. addr row = a) xs = [r]"
  shows "addr r = a"
proof -
  have "r \<in> set (filter (\<lambda>row. addr row = a) xs)" using assms by simp
  then show ?thesis by simp
qed

lemma select_single_update:
  assumes "\<And>row. addr row = a \<Longrightarrow> addr (f row) = a"
    and "select_single a xs = Some r"
  shows "select_single a (map (\<lambda>row. if addr row = a then f row else row) xs) = Some (f r)"
proof -
  from assms(2) have one: "filter (\<lambda>row. addr row = a) xs = [r]"
    by (simp add: select_single_Some)
  then have "addr r = a" by (rule filter_single_addr)
  with one show ?thesis
    by (simp add: select_single_Some filter_update_addr [OF assms(1)])
qed

lemma select_single_update_None:
  assumes "\<And>row. addr row = a \<Longrightarrow> addr (f row) = a"
    and "select_single a xs = None"
  shows "select_single a (map (\<lambda>row. if addr row = a then f row else row) xs) = None"
  using assms(2)
  by (auto simp: select_single_def filter_update_addr [OF assms(1)] split: list.splits)

lemma array_some_filter: "array_some p xs \<longleftrightarrow> filter p xs \<noteq> []"
  by (induction xs) auto

lemma addr_row_of [simp]: "addr (row_of r s f) = addr r"
  by (simp add: row_of_def)

lemma addr_serverRecord [simp]: "addr (serverRecord now a host p sd) = a"
  by (simp add: serverRecord_def)

lemma select_single_upsert_existing:
  assumes "select_single (addr r) st = Some row"
  shows "select_single (addr r) (upsert d now r st) = Some (row_of r (seen_count row) (first_seen row))"
proof -
  from assms have "filter (\<lambda>row. addr row = addr r) st = [row]"
    by (simp add: select_single_Some)
  then have "array_some (\<lambda>row. addr row = addr r) st"
    by (simp add: array_some_filter)
  then show ?thesis
    using select_single_update [of "addr r" "\<lambda>row. row_of r (seen_count row) (first_seen row)" st row] assms
    by (simp add: upsert_def)
qed

lemma select_single_upsert_new:
  assumes "filter (\<lambda>row. addr row = addr r) st = []"
  shows "select_single (addr r) (upsert d now r st) = Some (row_of r d (first_seen_default now))"
  using assms by (simp add: upsert_def array_some_filter select_single_def)

lemma select_single_increment:
  assumes "select_single a st = Some row"
  shows "select_single a (increment_server_seen_count a st) = Some (row\<lparr>seen_count := seen_count row + 1\<rparr>)"
  unfolding increment_server_seen_count_def
  using select_single_update [of a "\<lambda>row. row\<lparr>seen_count := seen_count row + 1\<rparr>" st row] assms
  by simp

lemma hit_existing:
  assumes "parse_addr a = Some (host, p)" and "upsert_ok calls"
    and "select_single a st = Some row"
  shows "select_single a (snd (serverWorker cfg calls now a (Hit sd) st)) =
         Some (row_of (serverRecord now a host p sd)
                 (seen_count row + (if rpc_ok calls then 1 else 0)) (first_seen row))"
  using assms select_single_upsert_existing [of "serverRecord now a host p sd" st row "seen_count_default cfg" now]
  by (simp add: serverWorker_def Let_def select_single_increment row_of_def)

lemma hit_new:
  assumes "parse_addr a = Some (host, p)" and "upsert_ok calls"
    and "filter (\<lambda>row. addr row = a) st = []"
  shows "select_single a (snd (serverWorker cfg calls now a (Hit sd) st)) =
         Some (row_of (serverRecord now a host p sd)
                 (seen_count_default cfg + (if rpc_ok calls then 1 else 0))
                 (first_seen_default now))"
  using assms select_single_upsert_new [of "serverRecord now a host p sd" st "seen_count_default cfg" now]
  by (simp add: serverWorker_def Let_def select_single_increment row_of_def)

lemma handle_failure_existing:
  assumes "select_ok calls" and "update_ok calls" and "select_single a st = Some row"
  shows "select_single a (handle_failure cfg calls now a st) =
         Some (row\<lparr>missed_count := Some ((case missed_count row of None \<Rightarrow> 0 | Some m \<Rightarrow> m) + 1),
                   updated_at := now,
                   seen_count := 0,
                   status := (if serverOfflineThreshold cfg \<le> int ((case missed_count row of None \<Rightarrow> 0 | Some m \<Rightarrow> m) + 1) \<and> status row \<noteq> ''offline'' then ''offline'' else status row),
                   offline_since := (if serverOfflineThreshold cfg \<le> int ((case missed_count row of None \<Rightarrow> 0 | Some m \<Rightarrow> m) + 1) \<and> status row \<noteq> ''offline'' then Some now else offline_since row)\<rparr>)"
  using assms
  by (simp add: handle_failure_def Let_def update_eq_addr_def select_single_update)

section \<open>Branches of the query worker\<close>

lemma all_ok_simps [simp]:
  "upsert_ok all_ok" "rpc_ok all_ok" "select_ok all_ok" "update_ok all_ok"
  by (simp_all add: all_ok_def)

lemma miss_is_handle_failure:
  "parse_addr a \<noteq> None \<Longrightarrow>
   snd (serverWorker cfg calls now a Miss st) = handle_failure cfg calls now a st"
  by (auto simp: serverWorker_def)

lemma handle_failure_unchanged:
  "\<not> (select_ok calls \<and> update_ok calls) \<Longrightarrow> handle_failure cfg calls now a st = st"
  by (auto simp: handle_failure_def Let_def split: option.splits)

lemma handle_failure_absent:
  "select_single a st = None \<Longrightarrow> handle_failure cfg calls now a st = st"
  by (simp add: handle_failure_def)

lemma hit_ambiguous:
  assumes "parse_addr a = Some (host, p)" and "upsert_ok calls"
    and "select_single a st = None" and "filter (\<lambda>row. addr row = a) st \<noteq> []"
  shows "select_single a (snd (serverWorker cfg calls now a (Hit sd) st)) = None"
proof -
  let ?r = "serverRecord now a host p sd"
  have up: "select_single a (upsert (seen_count_default cfg) now ?r st) = None"
    using assms(3,4)
      select_single_update_None [of a "\<lambda>row. row_of ?r (seen_count row) (first_seen row)" st]
    by (simp add: upsert_def array_some_filter)
  then have "select_single a
      (increment_server_seen_count a (upsert (seen_count_default cfg) now ?r st)) = None"
    unfolding increment_server_seen_count_def
    by (rule select_single_update_None [rotated]) simp
  with up show ?thesis
    using assms(1,2) by (simp add: serverWorker_def Let_def)
qed

lemma misses_snoc:
  "misses cfg a (ts @ [t]) st = snd (serverWorker cfg all_ok t a Miss (misses cfg a ts st))"
  by (induction ts arbitrary: st) simp_all

lemma misses_below_threshold:
  assumes "parse_addr a \<noteq> None"
    and "select_single a st = Some row"
    and "status row \<noteq> ''offline''"
    and "missed_count row = Some m"
  shows "int (m + length ts) < serverOfflineThreshold cfg \<Longrightarrow>
         \<exists>row'. select_single a (misses cfg a ts st) = Some row' \<and>
           status row' = status row \<and> offline_since row' = offline_since row \<and>
           missed_count row' = Some (m + length ts) \<and>
           (ts \<noteq> [] \<longrightarrow> seen_count row' = 0)"
proof (induction ts rule: rev_induct)
  case Nil
  with assms show ?case by simp
next
  case (snoc t ts)
  then have "int (m + length ts) < serverOfflineThreshold cfg" by simp
  with snoc.IH obtain r where r: "select_single a (misses cfg a ts st) = Some r"
    "status r = status row" "offline_since r = offline_since row"
    "missed_count r = Some (m + length ts)"
    by blast
  from snoc.prems have small: "\<not> serverOfflineThreshold cfg \<le> int (m + length ts + 1)"
    by simp
  show ?case
    using assms(1) r small
    by (simp add: misses_snoc miss_is_handle_failure handle_failure_existing)
qed

lemma miss_reaching_threshold:
  assumes "parse_addr a \<noteq> None"
    and "select_single a st = Some row"
    and "status row \<noteq> ''offline''"
    and "missed_count row = Some m"
    and "int (m + length ts) + 1 = serverOfflineThreshold cfg"
  shows "\<exists>row'. select_single a (misses cfg a (ts @ [t]) st) = Some row' \<and>
           status row' = ''offline'' \<and> offline_since row' = Some t \<and>
           missed_count row' = Some (m + length ts + 1) \<and> seen_count row' = 0"
proof -
  from assms(5) have "int (m + length ts) < serverOfflineThreshold cfg" by simp
  with misses_below_threshold [OF assms(1-4)]
  obtain r where r: "select_single a (misses cfg a ts st) = Some r"
    "status r = status row" "missed_count r = Some (m + length ts)"
    by blast
  from assms(5) have "serverOfflineThreshold cfg \<le> int (m + length ts + 1)" by simp
  then show ?thesis
    using assms(1,3) r
    by (simp add: misses_snoc miss_is_handle_failure handle_failure_existing)
qed

section \<open>An offline row has not been seen\<close>

text \<open>
  In every table that a history of jobs builds from the empty table, a row with status
  \<open>offline\<close> has \<open>seen_count = 0\<close>: a row goes offline only in the \<open>catch\<close> block, which
  resets the count, and the stored procedure runs on a row that the upsert has just put
  online.
\<close>

lemma upsert_rows:
  assumes "r \<in> set (upsert d t rc st)"
  shows "(r \<in> set st \<and> addr r \<noteq> addr rc) \<or> (\<exists>s f. r = row_of rc s f)"
  using assms by (auto simp: upsert_def array_some_iff split: if_splits)

lemma hit_keeps_offline_unseen:
  assumes "\<forall>row\<in>set st. status row = ''offline'' \<longrightarrow> seen_count row = 0"
    and "status rc = ''online''" and "addr rc = a"
  shows "\<forall>row\<in>set (increment_server_seen_count a (upsert d t rc st)).
           status row = ''offline'' \<longrightarrow> seen_count row = 0"
proof
  fix row
  assume "row \<in> set (increment_server_seen_count a (upsert d t rc st))"
  then obtain r where r: "r \<in> set (upsert d t rc st)"
    and row: "row = (if addr r = a then r\<lparr>seen_count := seen_count r + 1\<rparr> else r)"
    by (auto simp: increment_server_seen_count_def)
  from upsert_rows [OF r] show "status row = ''offline'' \<longrightarrow> seen_count row = 0"
  proof
    assume "r \<in> set st \<and> addr r \<noteq> addr rc"
    with assms(1,3) row show ?thesis by auto
  next
    assume "\<exists>s f. r = row_of rc s f"
    with assms(2) row show ?thesis by (auto simp: row_of_def)
  qed
qed

lemma handle_failure_cases:
  "handle_failure cfg calls now a st = st \<or>
   (\<exists>u. handle_failure cfg calls now a st = update_eq_addr u a st \<and> ud_seen_count u = 0)"
proof (cases "if select_ok calls then select_single a st else None")
  case None
  then show ?thesis by (simp add: handle_failure_def)
next
  case (Some existing)
  show ?thesis
  proof (cases "update_ok calls")
    case False
    with Some show ?thesis by (simp add: handle_failure_def Let_def)
  next
    case True
    have "\<exists>u. handle_failure cfg calls now a st = update_eq_addr u a st \<and> ud_seen_count u = 0"
      unfolding handle_failure_def Some option.case Let_def if_P [OF True]
      by (intro exI conjI) (rule refl, simp)
    then show ?thesis ..
  qed
qed

lemma update_keeps_offline_unseen:
  assumes "\<forall>row\<in>set st. status row = ''offline'' \<longrightarrow> seen_count row = 0"
    and "ud_seen_count u = 0"
  shows "\<forall>row\<in>set (update_eq_addr u a st). status row = ''offline'' \<longrightarrow> seen_count row = 0"
  using assms by (auto simp: update_eq_addr_def)

lemma handle_failure_keeps_offline_unseen:
  assumes "\<forall>row\<in>set st. status row = ''offline'' \<longrightarrow> seen_count row = 0"
  shows "\<forall>row\<in>set (handle_failure cfg calls now a st).
           status row = ''offline'' \<longrightarrow> seen_count row = 0"
  using handle_failure_cases [of cfg calls now a st] update_keeps_offline_unseen [OF assms]
    assms by metis

lemma worker_keeps_offline_unseen:
  assumes "\<forall>row\<in>set st. status row = ''offline'' \<longrightarrow> seen_count row = 0"
  shows "\<forall>row\<in>set (snd (serverWorker cfg all_ok t a outcome st)).
           status row = ''offline'' \<longrightarrow> seen_count row = 0"
proof (cases "parse_addr a")
  case None
  with assms show ?thesis by (simp add: serverWorker_def)
next
  case (Some hp)
  obtain host p where hp: "hp = (host, p)" by (cases hp)
  show ?thesis
  proof (cases outcome)
    case (Hit sd)
    have "status (serverRecord t a host p sd) = ''online''"
      by (simp add: serverRecord_def)
    from hit_keeps_offline_unseen [OF assms this addr_serverRecord]
    show ?thesis using Some hp Hit by (simp add: serverWorker_def Let_def)
  next
    case Miss
    with Some hp handle_failure_keeps_offline_unseen [OF assms] show ?thesis
      by (simp add: serverWorker_def)
  qed
qed

lemma run_job_keeps_offline_unseen:
  assumes "\<forall>row\<in>set st. status row = ''offline'' \<longrightarrow> seen_count row = 0"
  shows "\<forall>row\<in>set (run_job cfg zone j st). status row = ''offline'' \<longrightarrow> seen_count row = 0"
proof (cases j)
  case (QueryJob t a outcome)
  with worker_keeps_offline_unseen [OF assms] show ?thesis by simp
next
  case (CleanupJob t)
  with assms show ?thesis by (simp add: cleanupWorker_def)
qed

lemma run_jobs_keeps_offline_unseen:
  "\<forall>row\<in>set st. status row = ''offline'' \<longrightarrow> seen_count row = 0 \<Longrightarrow>
   \<forall>row\<in>set (run_jobs cfg zone js st). status row = ''offline'' \<longrightarrow> seen_count row = 0"
proof (induction js arbitrary: st)
  case Nil
  then show ?case by simp
next
  case (Cons j js)
  from Cons.IH [OF run_job_keeps_offline_unseen [OF Cons.prems]] show ?case by simp
qed

section \<open>The sample inputs, evaluated\<close>

lemma parse_sample_addr [simp]: "parse_addr sample_addr = Some (''203.0.113.7'', 27015)"
  by code_simp

lemma gamemode_sample_data: "detectGamemode sample_data = ''public''"
  by (simp add: sample_data_def detectGamemode_def tagged_server_def tags_of_def eval_strings)

lemma sample_row_simps [simp]:
  "addr (sample_row s since seen missed) = sample_addr"
  "status (sample_row s since seen missed) = s"
  "offline_since (sample_row s since seen missed) = since"
  "seen_count (sample_row s since seen missed) = seen"
  "missed_count (sample_row s since seen missed) = Some missed"
  by (simp_all add: sample_row_def row_of_def serverRecord_def)

lemma select_single_sample [simp]:
  "select_single sample_addr [sample_row s since seen missed] =
   Some (sample_row s since seen missed)"
  by (simp add: select_single_def)

section \<open>Properties of the state of an address\<close>

text \<open>
  C1: a failed write of a successful probe does not leave the row unchanged. The error of the
  upsert is thrown into the \<open>catch\<close> block that handles failed queries, after the stored
  procedure has been called. For a row that is online with two misses and the threshold 3,
  an answer of the server whose upsert fails puts the row offline with three misses and
  \<open>seen_count = 0\<close>; when the update of the \<open>catch\<close> block fails as well, the row keeps the
  increment of \<open>seen_count\<close> made by the stored procedure.
\<close>

theorem failed_upsert_handled_as_miss:
  "serverWorker sample_config (all_ok\<lparr>upsert_ok := False\<rparr>) 1000 sample_addr (Hit sample_data)
     [sample_row ''online'' None 5 2] =
   (None, [(sample_row ''offline'' (Some 1000) 0 3)\<lparr>updated_at := 1000\<rparr>]) \<and>
   serverWorker sample_config (all_ok\<lparr>upsert_ok := False, update_ok := False\<rparr>) 1000 sample_addr
     (Hit sample_data) [sample_row ''online'' None 5 2] =
   (None, [sample_row ''online'' None 6 2])"
  by code_simp

text \<open>
  C2, as claimed, fails at the boundary: for a process in UTC, a row that is offline for
  exactly \<open>serverDeleteThresholdDays\<close> days satisfies \<open>now - offline_since \<ge> retention\<close> and is
  kept, with a count of 0.
\<close>

theorem cleanup_keeps_exact_age:
  "status (sample_row ''offline'' (Some 0) 0 3) = ''offline'' \<and>
   offline_since (sample_row ''offline'' (Some 0) 0 3) = Some 0 \<and>
   serverDeleteThresholdDays sample_config * 86400000 \<le> 604800000 - 0 \<and>
   cleanupWorker sample_config utc_zone True 604800000 [sample_row ''offline'' (Some 0) 0 3] =
     (Inr 0, [sample_row ''offline'' (Some 0) 0 3])"
  by (simp add: cleanupWorker_def cutoffDate_def LocalTime_def UTC_def utc_zone_def expired_def
      sample_row_def sample_config_def)

text \<open>
  C2, amended: a successful cleanup keeps, in their order, exactly the rows that are not both
  offline and offline since strictly before the cut-off, which is the instant
  \<open>serverDeleteThresholdDays\<close> local calendar days before \<open>now\<close> at the same local time of
  day (a row whose \<open>offline_since\<close> is \<open>null\<close> is kept); no online row is deleted and no row is
  added. The count returned is the number of deleted rows. When the delete fails the job
  throws and the table is unchanged. When the offset of local time at the cut-off is the
  one at \<open>now\<close>, as it always is for a process in UTC, a row of the table is deleted if and
  only if its status is offline and \<open>now - offline_since\<close> is strictly greater than
  \<open>serverDeleteThresholdDays\<close> days of 24 hours.
\<close>

theorem cleanup_deletes_expired:
  "snd (cleanupWorker cfg zone True now st) =
     filter (\<lambda>row. \<not> (status row = ''offline'' \<and>
        (\<exists>t. offline_since row = Some t \<and> t < cutoffDate cfg zone now))) st \<and>
   (\<forall>row\<in>set st. row \<in> set (snd (cleanupWorker cfg zone True now st)) \<longleftrightarrow>
      \<not> (status row = ''offline'' \<and>
         (\<exists>t. offline_since row = Some t \<and> t < cutoffDate cfg zone now))) \<and>
   fst (cleanupWorker cfg zone True now st) =
     Inr (length st - length (snd (cleanupWorker cfg zone True now st))) \<and>
   cleanupWorker cfg zone False now st = (Inl StoreError, st) \<and>
   (offset_at_local zone (LocalTime zone now - serverDeleteThresholdDays cfg * 86400000) =
      offset_at_utc zone now \<longrightarrow>
    cutoffDate cfg zone now = now - serverDeleteThresholdDays cfg * 86400000 \<and>
    (\<forall>row\<in>set st. row \<in> set (snd (cleanupWorker cfg zone True now st)) \<longleftrightarrow>
       \<not> (status row = ''offline'' \<and>
          (\<exists>t. offline_since row = Some t \<and>
               serverDeleteThresholdDays cfg * 86400000 < now - t))))"
proof -
  have expired_iff: "expired (cutoffDate cfg zone now) row \<longleftrightarrow>
      status row = ''offline'' \<and> (\<exists>t. offline_since row = Some t \<and> t < cutoffDate cfg zone now)"
    for row
    by (cases "offline_since row") (auto simp: expired_def)
  have remaining: "snd (cleanupWorker cfg zone True now st) =
      filter (\<lambda>row. \<not> expired (cutoffDate cfg zone now) row) st"
    by (simp add: cleanupWorker_def)
  have counted: "fst (cleanupWorker cfg zone True now st) =
      Inr (length st - length (snd (cleanupWorker cfg zone True now st)))"
    unfolding remaining
    using sum_length_filter_compl [of "expired (cutoffDate cfg zone now)" st]
    by (simp add: cleanupWorker_def)
  have failed: "cleanupWorker cfg zone False now st = (Inl StoreError, st)"
    by (simp add: cleanupWorker_def)
  have kept: "\<forall>row\<in>set st. row \<in> set (snd (cleanupWorker cfg zone True now st)) \<longleftrightarrow>
      \<not> (status row = ''offline'' \<and>
         (\<exists>t. offline_since row = Some t \<and> t < cutoffDate cfg zone now))"
    unfolding remaining by (simp add: expired_iff)
  have same_offset: "cutoffDate cfg zone now = now - serverDeleteThresholdDays cfg * 86400000 \<and>
      (\<forall>row\<in>set st. row \<in> set (snd (cleanupWorker cfg zone True now st)) \<longleftrightarrow>
         \<not> (status row = ''offline'' \<and>
            (\<exists>t. offline_since row = Some t \<and>
                 serverDeleteThresholdDays cfg * 86400000 < now - t)))"
    if "offset_at_local zone (LocalTime zone now - serverDeleteThresholdDays cfg * 86400000) =
        offset_at_utc zone now"
  proof -
    from that have cut: "cutoffDate cfg zone now = now - serverDeleteThresholdDays cfg * 86400000"
      by (simp add: cutoffDate_def UTC_def LocalTime_def)
    have "t < cutoffDate cfg zone now \<longleftrightarrow> serverDeleteThresholdDays cfg * 86400000 < now - t"
      for t
      unfolding cut by arith
    with kept cut show ?thesis by simp
  qed
  have rows: "snd (cleanupWorker cfg zone True now st) =
      filter (\<lambda>row. \<not> (status row = ''offline'' \<and>
        (\<exists>t. offline_since row = Some t \<and> t < cutoffDate cfg zone now))) st"
    unfolding remaining by (simp add: expired_iff)
  from same_offset
  have aged: "offset_at_local zone (LocalTime zone now - serverDeleteThresholdDays cfg * 86400000) =
      offset_at_utc zone now \<longrightarrow>
    cutoffDate cfg zone now = now - serverDeleteThresholdDays cfg * 86400000 \<and>
    (\<forall>row\<in>set st. row \<in> set (snd (cleanupWorker cfg zone True now st)) \<longleftrightarrow>
       \<not> (status row = ''offline'' \<and>
          (\<exists>t. offline_since row = Some t \<and>
               serverDeleteThresholdDays cfg * 86400000 < now - t)))"
    by (rule impI)
  show ?thesis
    by (rule conjI [OF rows conjI [OF kept conjI [OF counted conjI [OF failed aged]]]])
qed

theorem cleanup_deletes_expired_witness:
  "offset_at_local utc_zone
     (LocalTime utc_zone 604800001 - serverDeleteThresholdDays sample_config * 86400000) =
     offset_at_utc utc_zone 604800001 \<and>
   snd (cleanupWorker sample_config utc_zone True 604800001
     [sample_row ''online'' None 4 0,
      (sample_row ''offline'' (Some 1) 0 3)\<lparr>addr := ''198.51.100.1:27015''\<rparr>,
      (sample_row ''offline'' (Some 0) 0 3)\<lparr>addr := ''198.51.100.2:27015''\<rparr>]) =
     [sample_row ''online'' None 4 0,
      (sample_row ''offline'' (Some 1) 0 3)\<lparr>addr := ''198.51.100.1:27015''\<rparr>] \<and>
   fst (cleanupWorker sample_config utc_zone True 604800001
     [sample_row ''online'' None 4 0,
      (sample_row ''offline'' (Some 1) 0 3)\<lparr>addr := ''198.51.100.1:27015''\<rparr>,
      (sample_row ''offline'' (Some 0) 0 3)\<lparr>addr := ''198.51.100.2:27015''\<rparr>]) = Inr 1 \<and>
   cutoffDate sample_config utc_zone 604800001 = 1 \<and>
   cutoffDate sample_config summer_zone 1259200000 = 658000000 \<and>
   1259200000 - 656200000 < serverDeleteThresholdDays sample_config * 86400000 \<and>
   snd (cleanupWorker sample_config summer_zone True 1259200000
     [sample_row ''offline'' (Some 656200000) 0 3]) = []"
proof -
  have same: "offset_at_local utc_zone
     (LocalTime utc_zone 604800001 - serverDeleteThresholdDays sample_config * 86400000) =
     offset_at_utc utc_zone 604800001"
    by (simp add: utc_zone_def)
  have summer: "cutoffDate sample_config summer_zone 1259200000 = 658000000"
    by (simp add: cutoffDate_def LocalTime_def UTC_def summer_zone_def sample_config_def)
  show ?thesis
    using cleanup_deletes_expired [of sample_config utc_zone 604800001
       "[sample_row ''online'' None 4 0,
         (sample_row ''offline'' (Some 1) 0 3)\<lparr>addr := ''198.51.100.1:27015''\<rparr>,
         (sample_row ''offline'' (Some 0) 0 3)\<lparr>addr := ''198.51.100.2:27015''\<rparr>]"]
      cleanup_deletes_expired [of sample_config summer_zone 1259200000
       "[sample_row ''offline'' (Some 656200000) 0 3]"]
      same summer
    by (simp add: sample_config_def)
qed

text \<open>
  C3: a row that is online with \<open>missed_count = 0\<close> stays online through fewer consecutive
  misses than the threshold, each miss adding one to \<open>missed_count\<close> and setting \<open>seen_count\<close>
  to 0, with \<open>offline_since\<close> untouched; the miss that brings \<open>missed_count\<close> to the threshold
  puts it offline, with \<open>offline_since\<close> the time of that miss; and an answer after
  threshold - 1 misses leaves it online with \<open>missed_count = 0\<close>. (For a threshold below 1 no
  run has these lengths.)
\<close>

theorem offline_after_threshold_misses:
  assumes "parse_addr a \<noteq> None"
    and "select_single a st = Some row"
    and "status row = ''online''"
    and "missed_count row = Some 0"
  shows "(int (length ts) < serverOfflineThreshold cfg \<longrightarrow>
           (\<exists>row'. select_single a (misses cfg a ts st) = Some row' \<and>
              status row' = ''online'' \<and> offline_since row' = offline_since row \<and>
              missed_count row' = Some (length ts) \<and>
              (ts \<noteq> [] \<longrightarrow> seen_count row' = 0))) \<and>
         (int (length us) + 1 = serverOfflineThreshold cfg \<longrightarrow>
           (\<exists>row'. select_single a (misses cfg a (us @ [t]) st) = Some row' \<and>
              status row' = ''offline'' \<and> offline_since row' = Some t \<and>
              missed_count row' = Some (length us + 1) \<and> seen_count row' = 0) \<and>
           (\<exists>row'. select_single a
                (snd (serverWorker cfg all_ok t a (Hit sd) (misses cfg a us st))) = Some row' \<and>
              status row' = ''online'' \<and> missed_count row' = Some 0))"
proof (intro conjI impI)
  assume "int (length ts) < serverOfflineThreshold cfg"
  then show "\<exists>row'. select_single a (misses cfg a ts st) = Some row' \<and>
      status row' = ''online'' \<and> offline_since row' = offline_since row \<and>
      missed_count row' = Some (length ts) \<and> (ts \<noteq> [] \<longrightarrow> seen_count row' = 0)"
    using misses_below_threshold [OF assms(1,2) _ assms(4), where ts = ts and cfg = cfg] assms(3)
    by simp
next
  assume "int (length us) + 1 = serverOfflineThreshold cfg"
  then show "\<exists>row'. select_single a (misses cfg a (us @ [t]) st) = Some row' \<and>
      status row' = ''offline'' \<and> offline_since row' = Some t \<and>
      missed_count row' = Some (length us + 1) \<and> seen_count row' = 0"
    using miss_reaching_threshold [OF assms(1,2) _ assms(4), where ts = us and cfg = cfg and t = t]
      assms(3)
    by simp
next
  assume "int (length us) + 1 = serverOfflineThreshold cfg"
  then have "int (0 + length us) < serverOfflineThreshold cfg" by simp
  with misses_below_threshold [OF assms(1,2) _ assms(4), where ts = us and cfg = cfg] assms(3)
  obtain r where r: "select_single a (misses cfg a us st) = Some r" by auto
  from assms(1) obtain host p where parse: "parse_addr a = Some (host, p)" by auto
  show "\<exists>row'. select_single a
      (snd (serverWorker cfg all_ok t a (Hit sd) (misses cfg a us st))) = Some row' \<and>
      status row' = ''online'' \<and> missed_count row' = Some 0"
    using hit_existing [OF parse _ r, where calls = all_ok and cfg = cfg and now = t and sd = sd]
    by (simp add: row_of_def serverRecord_def)
qed

theorem offline_after_threshold_misses_witness:
  "parse_addr sample_addr \<noteq> None \<and>
   select_single sample_addr [sample_row ''online'' None 4 0] =
     Some (sample_row ''online'' None 4 0) \<and>
   (\<exists>row'. select_single sample_addr
        (misses sample_config sample_addr [10, 20] [sample_row ''online'' None 4 0]) = Some row' \<and>
      status row' = ''online'' \<and> offline_since row' = None \<and>
      missed_count row' = Some 2 \<and> seen_count row' = 0) \<and>
   (\<exists>row'. select_single sample_addr
        (misses sample_config sample_addr ([10, 20] @ [30]) [sample_row ''online'' None 4 0]) =
        Some row' \<and>
      status row' = ''offline'' \<and> offline_since row' = Some 30 \<and>
      missed_count row' = Some 3 \<and> seen_count row' = 0) \<and>
   (\<exists>row'. select_single sample_addr
        (snd (serverWorker sample_config all_ok 30 sample_addr (Hit sample_data)
           (misses sample_config sample_addr [10, 20] [sample_row ''online'' None 4 0]))) =
        Some row' \<and>
      status row' = ''online'' \<and> missed_count row' = Some 0)"
proof -
  have valid: "parse_addr sample_addr \<noteq> None" by simp
  have row: "select_single sample_addr [sample_row ''online'' None 4 0] =
      Some (sample_row ''online'' None 4 0)" by simp
  have online: "status (sample_row ''online'' None 4 0) = ''online''" by simp
  have fresh: "missed_count (sample_row ''online'' None 4 0) = Some 0" by simp
  show ?thesis
    using offline_after_threshold_misses [OF valid row online fresh,
        where cfg = sample_config and ts = "[10, 20]" and us = "[10, 20]" and t = 30
          and sd = sample_data]
    by (simp add: sample_config_def numeral_2_eq_2 numeral_3_eq_3)
qed

text \<open>
  C4, as claimed, fails for an offline row whose \<open>seen_count\<close> is not 0. The program leaves
  such a row itself: on an offline row with \<open>seen_count = 0\<close>, an answer whose upsert fails
  and whose update in the \<open>catch\<close> block fails as well leaves the row offline with
  \<open>seen_count = 1\<close> (the stored procedure has run); the next answer, all calls succeeding,
  puts the row online with \<open>seen_count = 2\<close>.
\<close>

theorem hit_on_offline_seen_before:
  "serverWorker sample_config (all_ok\<lparr>upsert_ok := False, update_ok := False\<rparr>) 900 sample_addr
     (Hit sample_data) [sample_row ''offline'' (Some 500) 0 3] =
     (None, [sample_row ''offline'' (Some 500) 1 3]) \<and>
   status (sample_row ''offline'' (Some 500) 1 3) = ''offline'' \<and>
   snd (serverWorker sample_config all_ok 1000 sample_addr (Hit sample_data)
     [sample_row ''offline'' (Some 500) 1 3]) =
     [(sample_row ''online'' None 2 0)\<lparr>updated_at := 1000\<rparr>] \<and>
   seen_count ((sample_row ''online'' None 2 0)\<lparr>updated_at := 1000\<rparr>) = 2"
  by code_simp

text \<open>
  C4, amended: an answer of a server whose row is offline, the upsert and the stored procedure
  succeeding, puts the row online, with \<open>offline_since\<close> \<open>null\<close> and \<open>missed_count = 0\<close>, and
  adds one to \<open>seen_count\<close>. In a table built from the empty table by a history of jobs whose
  calls of the store all succeed, an offline row has \<open>seen_count = 0\<close>, and \<open>seen_count\<close> is 1
  after the answer.
\<close>

theorem hit_on_offline:
  assumes "parse_addr a \<noteq> None"
    and "upsert_ok calls" and "rpc_ok calls"
    and "select_single a st = Some row"
    and "status row = ''offline''"
  shows "\<exists>row'. select_single a (snd (serverWorker cfg calls now a (Hit sd) st)) = Some row' \<and>
           status row' = ''online'' \<and> offline_since row' = None \<and>
           missed_count row' = Some 0 \<and> seen_count row' = seen_count row + 1 \<and>
           (st = run_jobs cfg zone js [] \<longrightarrow> seen_count row' = 1)"
proof -
  from assms(4) have member: "row \<in> set (filter (\<lambda>row. addr row = a) st)"
    by (simp add: select_single_Some)
  have seen: "seen_count row = 0" if built: "st = run_jobs cfg zone js []"
  proof -
    have "\<forall>row\<in>set st. status row = ''offline'' \<longrightarrow> seen_count row = 0"
      unfolding built by (rule run_jobs_keeps_offline_unseen) simp
    with member assms(5) show ?thesis by simp
  qed
  from assms(1) obtain host p where parse: "parse_addr a = Some (host, p)" by auto
  show ?thesis
    using hit_existing [OF parse assms(2,4), where cfg = cfg and now = now and sd = sd]
      assms(3) seen
    by (simp add: row_of_def serverRecord_def)
qed

theorem hit_on_offline_witness:
  "select_single sample_addr
     (run_jobs sample_config utc_zone
        [QueryJob 0 sample_addr (Hit sample_data), QueryJob 10 sample_addr Miss,
         QueryJob 20 sample_addr Miss, QueryJob 30 sample_addr Miss] []) =
     Some ((sample_row ''offline'' (Some 30) 0 3)\<lparr>updated_at := 30\<rparr>) \<and>
   (\<exists>row'. select_single sample_addr
        (snd (serverWorker sample_config all_ok 40 sample_addr (Hit sample_data)
           (run_jobs sample_config utc_zone
              [QueryJob 0 sample_addr (Hit sample_data), QueryJob 10 sample_addr Miss,
               QueryJob 20 sample_addr Miss, QueryJob 30 sample_addr Miss] []))) = Some row' \<and>
      status row' = ''online'' \<and> offline_since row' = None \<and>
      missed_count row' = Some 0 \<and> seen_count row' = 1)"
proof -
  have valid: "parse_addr sample_addr \<noteq> None" by simp
  have row: "select_single sample_addr
     (run_jobs sample_config utc_zone
        [QueryJob 0 sample_addr (Hit sample_data), QueryJob 10 sample_addr Miss,
         QueryJob 20 sample_addr Miss, QueryJob 30 sample_addr Miss] []) =
     Some ((sample_row ''offline'' (Some 30) 0 3)\<lparr>updated_at := 30\<rparr>)"
    by code_simp
  have offline: "status ((sample_row ''offline'' (Some 30) 0 3)\<lparr>updated_at := 30\<rparr>) = ''offline''"
    by simp
  show ?thesis
    using hit_on_offline [OF valid _ _ row offline,
        where calls = all_ok and now = 40 and sd = sample_data and cfg = sample_config
          and zone = utc_zone
          and js = "[QueryJob 0 sample_addr (Hit sample_data), QueryJob 10 sample_addr Miss,
                     QueryJob 20 sample_addr Miss, QueryJob 30 sample_addr Miss]"] row
    by simp
qed

text \<open>
  C5: a miss on a row that is offline leaves \<open>offline_since\<close> and the status as they are,
  whether the calls of the store succeed or not; when they succeed, \<open>missed_count\<close> grows by
  one (a \<open>null\<close> count is read as 0).
\<close>

theorem miss_on_offline_keeps_offline_since:
  assumes "parse_addr a \<noteq> None"
    and "select_single a st = Some row"
    and "status row = ''offline''"
  shows "\<exists>row'. select_single a (snd (serverWorker cfg calls now a Miss st)) = Some row' \<and>
           offline_since row' = offline_since row \<and>
           status row' = ''offline'' \<and>
           (select_ok calls \<and> update_ok calls \<longrightarrow>
              missed_count row' =
                Some ((case missed_count row of None \<Rightarrow> 0 | Some m \<Rightarrow> m) + 1))"
proof (cases "select_ok calls \<and> update_ok calls")
  case True
  then show ?thesis
    using assms by (simp add: miss_is_handle_failure handle_failure_existing)
next
  case False
  then have "handle_failure cfg calls now a st = st"
    by (rule handle_failure_unchanged)
  with False assms show ?thesis
    by (auto simp: miss_is_handle_failure)
qed

theorem miss_on_offline_keeps_offline_since_witness:
  "parse_addr sample_addr \<noteq> None \<and>
   select_single sample_addr [sample_row ''offline'' (Some 500) 0 3] =
     Some (sample_row ''offline'' (Some 500) 0 3) \<and>
   (\<exists>row'. select_single sample_addr
        (snd (serverWorker sample_config all_ok 1000 sample_addr Miss
           [sample_row ''offline'' (Some 500) 0 3])) = Some row' \<and>
      offline_since row' = Some 500 \<and> status row' = ''offline'' \<and>
      missed_count row' = Some 4)"
proof -
  have valid: "parse_addr sample_addr \<noteq> None" by simp
  have row: "select_single sample_addr [sample_row ''offline'' (Some 500) 0 3] =
      Some (sample_row ''offline'' (Some 500) 0 3)" by simp
  have offline: "status (sample_row ''offline'' (Some 500) 0 3) = ''offline''" by simp
  show ?thesis
    using miss_on_offline_keeps_offline_since [OF valid row offline,
        where cfg = sample_config and calls = all_ok and now = 1000]
    by simp
qed

text \<open>
  C6: after a job whose calls of the store succeed, the row of its address has exclusive
  counters: \<open>seen_count > 0\<close> implies \<open>missed_count = 0\<close>, and \<open>missed_count > 0\<close> implies
  \<open>seen_count = 0\<close>, whatever the row was before and whether the server answered or not.
\<close>

theorem counters_exclusive:
  assumes "parse_addr a \<noteq> None"
    and "upsert_ok calls" and "select_ok calls" and "update_ok calls"
    and "select_single a (snd (serverWorker cfg calls now a outcome st)) = Some row'"
  shows "(0 < seen_count row' \<longrightarrow> missed_count row' = Some 0) \<and>
         ((\<exists>m. missed_count row' = Some m \<and> 0 < m) \<longrightarrow> seen_count row' = 0)"
proof (cases outcome)
  case (Hit sd)
  from assms(1) obtain host p where parse: "parse_addr a = Some (host, p)" by auto
  have "missed_count row' = Some 0"
  proof (cases "select_single a st")
    case (Some row)
    with assms(5) Hit show ?thesis
      using hit_existing [OF parse assms(2) Some, of cfg now sd]
      by (auto simp: row_of_def serverRecord_def)
  next
    case None
    show ?thesis
    proof (cases "filter (\<lambda>row. addr row = a) st = []")
      case True
      with assms(5) Hit show ?thesis
        using hit_new [OF parse assms(2) True, of cfg now sd]
        by (auto simp: row_of_def serverRecord_def)
    next
      case False
      with assms(5) Hit None show ?thesis
        using hit_ambiguous [OF parse assms(2) None False, of cfg now sd] by simp
    qed
  qed
  then show ?thesis by simp
next
  case Miss
  show ?thesis
  proof (cases "select_single a st")
    case None
    with assms(1,5) Miss show ?thesis
      by (simp add: miss_is_handle_failure handle_failure_absent)
  next
    case (Some row)
    with assms Miss show ?thesis
      by (auto simp: miss_is_handle_failure handle_failure_existing)
  qed
qed

theorem counters_exclusive_witness:
  "select_single sample_addr
     (snd (serverWorker sample_config all_ok 1000 sample_addr (Hit sample_data)
        [sample_row ''offline'' (Some 500) 0 3])) =
     Some ((sample_row ''online'' None 1 0)\<lparr>updated_at := 1000\<rparr>) \<and>
   missed_count ((sample_row ''online'' None 1 0)\<lparr>updated_at := 1000\<rparr>) = Some 0 \<and>
   select_single sample_addr
     (snd (serverWorker sample_config all_ok 1000 sample_addr Miss
        [sample_row ''online'' None 5 0])) =
     Some ((sample_row ''online'' None 0 1)\<lparr>updated_at := 1000\<rparr>) \<and>
   seen_count ((sample_row ''online'' None 0 1)\<lparr>updated_at := 1000\<rparr>) = 0"
proof -
  have valid: "parse_addr sample_addr \<noteq> None" by simp
  have hit: "select_single sample_addr
     (snd (serverWorker sample_config all_ok 1000 sample_addr (Hit sample_data)
        [sample_row ''offline'' (Some 500) 0 3])) =
     Some ((sample_row ''online'' None 1 0)\<lparr>updated_at := 1000\<rparr>)"
    by code_simp
  have miss: "select_single sample_addr
     (snd (serverWorker sample_config all_ok 1000 sample_addr Miss
        [sample_row ''online'' None 5 0])) =
     Some ((sample_row ''online'' None 0 1)\<lparr>updated_at := 1000\<rparr>)"
    by code_simp
  have seen: "0 < seen_count ((sample_row ''online'' None 1 0)\<lparr>updated_at := 1000\<rparr>)"
    by simp
  have missed: "\<exists>m. missed_count ((sample_row ''online'' None 0 1)\<lparr>updated_at := 1000\<rparr>) = Some m
      \<and> 0 < m"
    by simp
  show ?thesis
    using counters_exclusive [OF valid _ _ _ hit] counters_exclusive [OF valid _ _ _ miss]
      hit miss seen missed
    by simp
qed

text \<open>
  C7: the same answer of a server applied twice to one address, both upserts succeeding: the
  row after the second job is the row after the first with \<open>updated_at\<close> the time of the
  second job and \<open>seen_count\<close> one more (the same when the stored procedure fails); no other
  column differs. \<open>seen_count\<close> does not decrease, and neither does \<open>updated_at\<close> when the
  clock does not go back. The table holds at most one row of the address before.
\<close>

theorem same_hit_twice:
  assumes "parse_addr a \<noteq> None"
    and "upsert_ok c1" and "upsert_ok c2"
    and "length (filter (\<lambda>row. addr row = a) st) \<le> 1"
    and "st1 = snd (serverWorker cfg c1 t1 a (Hit sd) st)"
    and "st2 = snd (serverWorker cfg c2 t2 a (Hit sd) st1)"
  shows "\<exists>row1 row2. select_single a st1 = Some row1 \<and> select_single a st2 = Some row2 \<and>
           row2 = row1\<lparr>seen_count := seen_count row1 + (if rpc_ok c2 then 1 else 0),
                         updated_at := t2\<rparr> \<and>
           seen_count row1 \<le> seen_count row2 \<and>
           (t1 \<le> t2 \<longrightarrow> updated_at row1 \<le> updated_at row2)"
proof -
  from assms(1) obtain host p where parse: "parse_addr a = Some (host, p)" by auto
  have "\<exists>s f. select_single a st1 = Some (row_of (serverRecord t1 a host p sd) s f)"
  proof (cases "filter (\<lambda>row. addr row = a) st")
    case Nil
    then show ?thesis
      using hit_new [OF parse assms(2), of st cfg t1 sd] assms(5) by blast
  next
    case (Cons row rest)
    with assms(4) have "filter (\<lambda>row. addr row = a) st = [row]" by simp
    then have "select_single a st = Some row" by (simp add: select_single_Some)
    then show ?thesis
      using hit_existing [OF parse assms(2), of st row cfg t1 sd] assms(5) by blast
  qed
  then obtain s f where one: "select_single a st1 = Some (row_of (serverRecord t1 a host p sd) s f)"
    by blast
  have two: "select_single a st2 =
      Some (row_of (serverRecord t2 a host p sd) (s + (if rpc_ok c2 then 1 else 0)) f)"
    using hit_existing [OF parse assms(3) one, of cfg t2 sd] assms(6)
    by (simp add: row_of_def)
  show ?thesis
    unfolding one two by (simp add: row_of_def serverRecord_def)
qed

theorem same_hit_twice_witness:
  "parse_addr sample_addr \<noteq> None \<and>
   length (filter (\<lambda>row. addr row = sample_addr) [sample_row ''online'' None 5 0]) \<le> 1 \<and>
   (\<exists>row1 row2.
      select_single sample_addr
        (snd (serverWorker sample_config all_ok 1000 sample_addr (Hit sample_data)
           [sample_row ''online'' None 5 0])) = Some row1 \<and>
      select_single sample_addr
        (snd (serverWorker sample_config all_ok 2000 sample_addr (Hit sample_data)
           (snd (serverWorker sample_config all_ok 1000 sample_addr (Hit sample_data)
              [sample_row ''online'' None 5 0])))) = Some row2 \<and>
      row2 = row1\<lparr>seen_count := seen_count row1 + 1, updated_at := 2000\<rparr> \<and>
      seen_count row1 \<le> seen_count row2 \<and> updated_at row1 \<le> updated_at row2)"
proof -
  have valid: "parse_addr sample_addr \<noteq> None" by simp
  have one: "length (filter (\<lambda>row. addr row = sample_addr) [sample_row ''online'' None 5 0]) \<le> 1"
    by simp
  show ?thesis
    using same_hit_twice [OF valid _ _ one refl refl,
        where ?c1.0 = all_ok and ?c2.0 = all_ok and cfg = sample_config and ?t1.0 = 1000
          and ?t2.0 = 2000 and sd = sample_data] valid one
    by simp
qed

end
